theory Spec2Isabelle
  imports Main
begin

section \<open>Errors and statement outcomes\<close>

text \<open>
  The services talk to the relational store through two entry points of
  \<^verbatim>\<open>database/db.ts\<close>: \<^verbatim>\<open>query\<close>, which takes a connection of its own from the
  pool, runs one statement and releases the connection (so the statement commits by
  itself), and \<^verbatim>\<open>withTransaction\<close>, which runs \<^verbatim>\<open>BEGIN\<close>, the callback with its own
  client, and \<^verbatim>\<open>COMMIT\<close> (or \<^verbatim>\<open>ROLLBACK\<close> and a rethrow when anything raises).

  A statement either is executed or raises. Whether it raises is not decided by the
  TypeScript code, so every operation takes a parameter \<open>fails\<close> that says, for each
  statement site of the operation, whether the store rejects it.
  Times are milliseconds since the epoch, as \<^verbatim>\<open>Date.now()\<close> counts them.
\<close>

datatype error =
    DbError
  | IOError
  | FileNotFound
  | MetadataNotFound
  | PremisNotFound
  | ConfigurationError
  | EncryptionFailed
  | DecryptionFailed

definition no_failure :: "'s \<Rightarrow> bool" where
  "no_failure s = False"

section \<open>Account lockout (services/accountLockout.ts)\<close>

text \<open>The columns of \<^verbatim>\<open>users\<close> that the lockout service reads and writes.\<close>

record user_row =
  u_id :: string
  username :: string
  failed_login_attempts :: int
  locked_until :: "int option"
  lockout_reason :: "string option"
  u_updated_at :: int

definition LOCKOUT_THRESHOLD :: int where
  "LOCKOUT_THRESHOLD = 5"

definition LOCKOUT_DURATION_MS :: int where
  "LOCKOUT_DURATION_MS = 15 * 60 * 1000"

datatype lockout_stmt =
    SelectUserId
  | SelectLockState
  | UpdateResetExpired
  | UpdateAttempts
  | SelectLockedUntil
  | UpdateUnlock

text \<open>\<^verbatim>\<open>UPDATE users SET ... WHERE id = $1\<close> and \<^verbatim>\<open>... WHERE username = $1\<close>.\<close>

definition update_users_by_id ::
  "string \<Rightarrow> (user_row \<Rightarrow> user_row) \<Rightarrow> user_row list \<Rightarrow> user_row list" where
  "update_users_by_id uid f users = map (\<lambda>u. if u_id u = uid then f u else u) users"

definition update_users_by_name ::
  "string \<Rightarrow> (user_row \<Rightarrow> user_row) \<Rightarrow> user_row list \<Rightarrow> user_row list" where
  "update_users_by_name name f users = map (\<lambda>u. if username u = name then f u else u) users"

text \<open>
  The body of the \<^verbatim>\<open>try\<close> block of \<^verbatim>\<open>recordFailedAttempt\<close>: \<open>Inl\<close> is a raised error,
  \<open>Inr\<close> the table after the call.
\<close>

definition recordFailedAttempt_try ::
  "(lockout_stmt \<Rightarrow> bool) \<Rightarrow> int \<Rightarrow> string \<Rightarrow> user_row list \<Rightarrow> error + user_row list" where
  "recordFailedAttempt_try fails now name users =
     (if fails SelectUserId then Inl DbError
      else case filter (\<lambda>u. username u = name) users of
        [] \<Rightarrow> Inr users
      | userRow # _ \<Rightarrow>
         (let userId = u_id userRow in
          if fails SelectLockState then Inl DbError
          else (case filter (\<lambda>u. u_id u = userId) users of
            [] \<Rightarrow> Inr users
          | record # _ \<Rightarrow>
             (let currentAttempts = failed_login_attempts record in
              if (case locked_until record of None \<Rightarrow> False | Some lockedUntilTime \<Rightarrow> now > lockedUntilTime)
              then
                (if fails UpdateResetExpired then Inl DbError
                 else Inr (update_users_by_id userId
                        (\<lambda>u. u\<lparr>failed_login_attempts := 1, locked_until := None,
                                lockout_reason := None, u_updated_at := now\<rparr>) users))
              else
                (let newAttempts = currentAttempts + 1;
                    locked = (newAttempts \<ge> LOCKOUT_THRESHOLD);
                    lockedUntil = (if locked then Some (now + LOCKOUT_DURATION_MS) else None);
                    lockoutReason = (if locked
                       then Some ''Brute-force protection: too many failed login attempts''
                       else None)
                in if fails UpdateAttempts then Inl DbError
                   else Inr (update_users_by_id userId
                          (\<lambda>u. u\<lparr>failed_login_attempts := newAttempts, locked_until := lockedUntil,
                                  lockout_reason := lockoutReason, u_updated_at := now\<rparr>) users))))))"

text \<open>
  The whole function: the \<^verbatim>\<open>catch\<close> logs and does not rethrow. A statement that raises
  has written nothing, and the function writes at most once, so the table is the one
  the call started with.
\<close>

definition recordFailedAttempt ::
  "(lockout_stmt \<Rightarrow> bool) \<Rightarrow> int \<Rightarrow> string \<Rightarrow> user_row list \<Rightarrow> error + user_row list" where
  "recordFailedAttempt fails now name users =
     (case recordFailedAttempt_try fails now name users of
        Inl e \<Rightarrow> Inr users
      | Inr users' \<Rightarrow> Inr users')"

definition isAccountLocked_try ::
  "(lockout_stmt \<Rightarrow> bool) \<Rightarrow> int \<Rightarrow> string \<Rightarrow> user_row list \<Rightarrow> error + (bool \<times> user_row list)" where
  "isAccountLocked_try fails now name users =
     (if fails SelectLockedUntil then Inl DbError
      else case filter (\<lambda>u. username u = name) users of
        [] \<Rightarrow> Inr (False, users)
      | record # _ \<Rightarrow>
          (case locked_until record of
             None \<Rightarrow> Inr (False, users)
           | Some lockedUntil \<Rightarrow>
               if now < lockedUntil then Inr (True, users)
               else if fails UpdateUnlock then Inl DbError
               else Inr (False, update_users_by_name name
                      (\<lambda>u. u\<lparr>locked_until := None, failed_login_attempts := 0,
                              lockout_reason := None, u_updated_at := now\<rparr>) users)))"

definition isAccountLocked ::
  "(lockout_stmt \<Rightarrow> bool) \<Rightarrow> int \<Rightarrow> string \<Rightarrow> user_row list \<Rightarrow> error + (bool \<times> user_row list)" where
  "isAccountLocked fails now name users =
     (case isAccountLocked_try fails now name users of
        Inl e \<Rightarrow> Inr (False, users)
      | Inr r \<Rightarrow> Inr r)"





definition alice_locked :: user_row where
  "alice_locked = \<lparr>u_id = ''u1'', username = ''alice'', failed_login_attempts = 5,
     locked_until = Some 900050, lockout_reason = Some ''locked'', u_updated_at = 50\<rparr>"


section \<open>The store (database/schema.sql, database/db.ts)\<close>

text \<open>
  A table is the list of its rows in insertion order; \<^verbatim>\<open>SELECT ... WHERE\<close> is
  \<^const>\<open>filter\<close>, \<^verbatim>\<open>rows[0]\<close> the head of the result, \<^verbatim>\<open>UPDATE ... WHERE\<close> a \<^const>\<open>map\<close>
  over the rows that match, \<^verbatim>\<open>INSERT\<close> an append. Rows keep the columns that the
  modelled statements read or write. Identifiers made by the store or by
  \<^verbatim>\<open>crypto.randomUUID()\<close> and the clock are parameters of the operation that uses them.
  A time stamp stands for its ISO-8601 string.
\<close>

record file_row =
  f_id :: string
  filename :: string
  file_path :: string
  file_hash :: string
  mime_type :: string
  file_size :: int
  created_by :: string
  access_level :: string
  f_description :: "string option"
  a11y_description :: "string option"
  current_version :: int
  is_accessible :: bool
  is_deleted :: bool
  deleted_at :: "int option"
  f_created_at :: int
  f_updated_at :: int

text \<open>
  \<^verbatim>\<open>Partial<DublinCoreMetadata>\<close>: every key may be absent. The full
  \<^verbatim>\<open>DublinCoreMetadata\<close> that \<^verbatim>\<open>createDublinCoreMetadata\<close> builds uses the same record.
\<close>

record dublin_core =
  dc_identifier :: "string option"
  dc_title :: "string option"
  dc_creator :: "string option"
  dc_subject :: "string option"
  dc_description :: "string option"
  dc_publisher :: "string option"
  dc_date :: "int option"
  dc_type :: "string option"
  dc_format :: "string option"
  dc_language :: "string option"
  dc_rights :: "string option"
  dc_source :: "string option"

text \<open>
  The serialized export. \<^verbatim>\<open>buildDublinCoreXML\<close> hands an object with the twelve keys of
  its argument to the builder of \<^verbatim>\<open>xml2js\<close>; the document is represented by the
  object it is built from.
\<close>

datatype xml_document = RdfDescription dublin_core

definition buildDublinCoreXML :: "dublin_core \<Rightarrow> xml_document" where
  "buildDublinCoreXML metadata = RdfDescription metadata"

record dc_row =
  dc_file_id :: string
  identifier_column :: string
  title :: string
  creator :: "string option"
  subject :: "string option"
  description :: "string option"
  publisher :: "string option"
  date_created :: "int option"
  type_column :: "string option"
  format :: "string option"
  language :: "string option"
  rights :: "string option"
  source :: "string option"
  dc_xml :: "xml_document option"
  dc_updated_at :: int

datatype event_type = Capture | Creation | Modification | Access | Migration | Validation

record premis_event =
  eventIdentifier :: string
  eventType :: event_type
  eventDateTime :: int
  eventDetail :: string
  linkingAgentIdentifier :: string
  linkingObjectIdentifier :: string

record premis_metadata =
  objectIdentifier :: string
  compositionLevel :: int
  messageDigestAlgorithm :: string
  messageDigest :: string
  messageDigestValidation :: int
  formatRegistry :: string
  formatName :: string
  preservationLevel :: string
  events :: "premis_event list"

record premis_row =
  p_file_id :: string
  object_identifier :: string
  format_name :: string
  message_digest :: string
  message_digest_algorithm :: string
  preservation_level :: string
  premis_json :: premis_metadata
  p_updated_at :: int

record change_details =
  previousHash :: string
  previousSize :: int
  diffSize :: int
  formatChanged :: bool

record version_row =
  v_id :: string
  v_file_id :: string
  version_number :: int
  v_file_hash :: string
  v_file_size :: int
  v_created_by :: string
  change_summary :: "string option"
  v_change_details :: change_details
  v_created_at :: int

datatype audit_action = CREATE | READ | UPDATE | DELETE | DOWNLOAD | SHARE | VALIDATE

datatype resource_type = ResFile | ResMetadata | ResUser | ResVersion

text \<open>The values that the modelled callers pass as \<^verbatim>\<open>previousValue\<close> and \<^verbatim>\<open>newValue\<close>.\<close>

datatype audit_value = FileValue file_row | VersionValue int

text \<open>
  What \<^verbatim>\<open>getFixityReport\<close> reads from the column \<^verbatim>\<open>details\<close> of an audit row.
  schema.sql declares no such column and \<^verbatim>\<open>logAction\<close> does not write one; the row
  carries it as an optional value, absent in every row that \<^verbatim>\<open>logAction\<close> inserts.
\<close>

record audit_details =
  det_severity :: "string option"
  det_storedHash :: "string option"
  det_currentHash :: "string option"

record audit_row =
  a_id :: string
  a_user_id :: "string option"
  a_action :: audit_action
  a_resource_type :: resource_type
  a_resource_id :: string
  previous_value :: "audit_value option"
  new_value :: "audit_value option"
  a_reason :: "string option"
  ip_address :: "string option"
  user_agent :: "string option"
  success :: bool
  error_message :: "string option"
  a_created_at :: int
  a_details :: "audit_details option"

record db =
  files :: "file_row list"
  metadata_dublin_core :: "dc_row list"
  metadata_premis :: "premis_row list"
  file_versions :: "version_row list"
  audit_log :: "audit_row list"

text \<open>
  The statement sites of the file, metadata, audit and fixity services, for the
  parameter \<open>fails\<close>.
\<close>

datatype stmt =
    TxBegin
  | TxCommit
  | InsertFile
  | InsertDublinCore
  | InsertPremis
  | InsertAudit
  | SelectCurrentVersion
  | InsertVersion
  | UpdateFileVersion
  | SelectDcXml
  | UpdateDublinCore
  | SelectPremisJson
  | UpdatePremisJson
  | SelectMessageDigest
  | UpdateSoftDelete
  | UpdateRestore
  | SelectFileWithMetadata
  | SelectFileForFixity
  | SelectFileForReport
  | SelectValidateLog

text \<open>
  Writes made through the client of \<^verbatim>\<open>withTransaction\<close> are pending until \<^verbatim>\<open>COMMIT\<close>
  and dropped by \<^verbatim>\<open>ROLLBACK\<close>. A write made through \<^verbatim>\<open>query\<close> runs on another
  connection of the pool and is committed when the statement returns.
\<close>

datatype pending_write =
    InsertFileRow file_row
  | InsertVersionRow version_row
  | SetFileVersion string string string int int int
  | SoftDelete string int
  | Restore string int

definition update_files :: "string \<Rightarrow> (file_row \<Rightarrow> file_row) \<Rightarrow> db \<Rightarrow> db" where
  "update_files fileId f d = d\<lparr>files := map (\<lambda>r. if f_id r = fileId then f r else r) (files d)\<rparr>"

fun apply_write :: "pending_write \<Rightarrow> db \<Rightarrow> db" where
  "apply_write (InsertFileRow r) d = d\<lparr>files := files d @ [r]\<rparr>"
| "apply_write (InsertVersionRow v) d = d\<lparr>file_versions := file_versions d @ [v]\<rparr>"
| "apply_write (SetFileVersion fileId newPath newHash newSize newVersion now) d =
     update_files fileId
       (\<lambda>r. r\<lparr>file_path := newPath, file_hash := newHash, file_size := newSize,
              current_version := newVersion, f_updated_at := now\<rparr>) d"
| "apply_write (SoftDelete fileId now) d =
     update_files fileId (\<lambda>r. r\<lparr>is_deleted := True, deleted_at := Some now, is_accessible := False\<rparr>) d"
| "apply_write (Restore fileId now) d =
     update_files fileId
       (\<lambda>r. r\<lparr>is_deleted := False, deleted_at := None, is_accessible := True, f_updated_at := now\<rparr>) d"

definition apply_pending :: "pending_write list \<Rightarrow> db \<Rightarrow> db" where
  "apply_pending ws d = foldl (\<lambda>d' w. apply_write w d') d ws"

text \<open>
  \<^verbatim>\<open>withTransaction(callback)\<close>. The callback gets the committed store and returns its
  result, the committed store as the pool statements it ran left it, and the writes
  pending on its client. The result of the whole is the callback's result or the error
  raised, and the committed store afterwards.
\<close>

definition withTransaction ::
  "(stmt \<Rightarrow> bool) \<Rightarrow> (db \<Rightarrow> (error + 'a) \<times> db \<times> pending_write list) \<Rightarrow> db \<Rightarrow> (error + 'a) \<times> db" where
  "withTransaction fails callback d =
     (if fails TxBegin then (Inl DbError, d)
      else case callback d of
        (Inl e, d', pending) \<Rightarrow> (Inl e, d')
      | (Inr result, d', pending) \<Rightarrow>
          if fails TxCommit then (Inl DbError, d')
          else (Inr result, apply_pending pending d'))"

text \<open>The file system: what \<^verbatim>\<open>fs.stat\<close> and the SHA-256 of the content give for a path.\<close>

record disk_file =
  size :: int
  sha256 :: string

type_synonym disk = "string \<Rightarrow> disk_file option"

text \<open>JavaScript's \<^verbatim>\<open>a || b\<close> on an optional string: absent and empty are both falsy.\<close>

definition or_else :: "string option \<Rightarrow> string \<Rightarrow> string" where
  "or_else a b = (case a of None \<Rightarrow> b | Some s \<Rightarrow> if s = [] then b else s)"

section \<open>Audit service (services/audit.ts)\<close>

record audit_options =
  opt_previousValue :: "audit_value option"
  opt_newValue :: "audit_value option"
  opt_reason :: "string option"
  opt_ipAddress :: "string option"
  opt_userAgent :: "string option"
  opt_success :: "bool option"
  opt_errorMessage :: "string option"

definition no_options :: audit_options where
  "no_options = \<lparr>opt_previousValue = None, opt_newValue = None, opt_reason = None,
     opt_ipAddress = None, opt_userAgent = None, opt_success = None, opt_errorMessage = None\<rparr>"

definition logAction ::
  "(stmt \<Rightarrow> bool) \<Rightarrow> int \<Rightarrow> string \<Rightarrow> string option \<Rightarrow> audit_action \<Rightarrow> resource_type \<Rightarrow> string
     \<Rightarrow> audit_options \<Rightarrow> db \<Rightarrow> (error + audit_row) \<times> db" where
  "logAction fails now newId userId action resourceType resourceId options d =
     (if fails InsertAudit then (Inl DbError, d)
      else let row = \<lparr>a_id = newId, a_user_id = userId, a_action = action,
                 a_resource_type = resourceType, a_resource_id = resourceId,
                 previous_value = opt_previousValue options, new_value = opt_newValue options,
                 a_reason = opt_reason options, ip_address = opt_ipAddress options,
                 user_agent = opt_userAgent options,
                 success = (opt_success options \<noteq> Some False),
                 error_message = opt_errorMessage options,
                 a_created_at = now, a_details = None\<rparr>
           in (Inr row, d\<lparr>audit_log := audit_log d @ [row]\<rparr>))"


section \<open>Metadata service (services/metadata.ts)\<close>

definition createDublinCoreMetadata ::
  "(stmt \<Rightarrow> bool) \<Rightarrow> int \<Rightarrow> string \<Rightarrow> dublin_core \<Rightarrow> db \<Rightarrow> (error + dublin_core) \<times> db" where
  "createDublinCoreMetadata fails now fileId metadata d =
     (let defaultMetadata = \<lparr>
            dc_identifier = Some fileId,
            dc_title = Some (or_else (dc_title metadata) ''Untitled''),
            dc_creator = Some (or_else (dc_creator metadata) ''Unknown''),
            dc_subject = dc_subject metadata,
            dc_description = dc_description metadata,
            dc_publisher = dc_publisher metadata,
            dc_date = Some now,
            dc_type = Some (or_else (dc_type metadata) ''document''),
            dc_format = Some (or_else (dc_format metadata) ''application/octet-stream''),
            dc_language = Some (or_else (dc_language metadata) ''pl''),
            dc_rights = Some (or_else (dc_rights metadata) ''Copyright''),
            dc_source = dc_source metadata\<rparr>;
          dcXml = buildDublinCoreXML defaultMetadata
      in if fails InsertDublinCore then (Inl DbError, d)
         else (Inr defaultMetadata,
               d\<lparr>metadata_dublin_core := metadata_dublin_core d @
                  [\<lparr>dc_file_id = fileId, identifier_column = fileId,
                    title = or_else (dc_title metadata) ''Untitled'',
                    creator = dc_creator defaultMetadata,
                    subject = dc_subject defaultMetadata,
                    description = dc_description defaultMetadata,
                    publisher = dc_publisher defaultMetadata,
                    date_created = Some now,
                    type_column = dc_type defaultMetadata,
                    format = dc_format defaultMetadata,
                    language = dc_language defaultMetadata,
                    rights = dc_rights defaultMetadata,
                    source = dc_source defaultMetadata,
                    dc_xml = Some dcXml,
                    dc_updated_at = now\<rparr>]\<rparr>))"

definition createPremisMetadata ::
  "(stmt \<Rightarrow> bool) \<Rightarrow> int \<Rightarrow> string \<Rightarrow> string \<Rightarrow> string \<Rightarrow> string \<Rightarrow> db
     \<Rightarrow> (error + premis_metadata) \<times> db" where
  "createPremisMetadata fails now eventId fileId fileHash mimeType d =
     (let premisData = \<lparr>
            objectIdentifier = fileId,
            compositionLevel = 0,
            messageDigestAlgorithm = ''SHA-256'',
            messageDigest = fileHash,
            messageDigestValidation = now,
            formatRegistry = ''PRONOM'',
            formatName = mimeType,
            preservationLevel = ''fulPreservation'',
            events = [\<lparr>eventIdentifier = eventId, eventType = Creation, eventDateTime = now,
                       eventDetail = ''File added to archive'',
                       linkingAgentIdentifier = ''system'',
                       linkingObjectIdentifier = fileId\<rparr>]\<rparr>
      in if fails InsertPremis then (Inl DbError, d)
         else (Inr premisData,
               d\<lparr>metadata_premis := metadata_premis d @
                  [\<lparr>p_file_id = fileId, object_identifier = fileId, format_name = mimeType,
                    message_digest = fileHash, message_digest_algorithm = ''SHA-256'',
                    preservation_level = ''fulPreservation'', premis_json = premisData,
                    p_updated_at = now\<rparr>]\<rparr>))"



definition recordPremisEvent ::
  "(stmt \<Rightarrow> bool) \<Rightarrow> int \<Rightarrow> string \<Rightarrow> string \<Rightarrow> event_type \<Rightarrow> string \<Rightarrow> string \<Rightarrow> db
     \<Rightarrow> (error + unit) \<times> db" where
  "recordPremisEvent fails now eventId fileId evType evDetail userId d =
     (if fails SelectPremisJson then (Inl DbError, d)
      else case filter (\<lambda>r. p_file_id r = fileId) (metadata_premis d) of
        [] \<Rightarrow> (Inl PremisNotFound, d)
      | row # _ \<Rightarrow>
         (let premisData = premis_json row;
              newEvent = \<lparr>eventIdentifier = eventId, eventType = evType, eventDateTime = now,
                          eventDetail = evDetail, linkingAgentIdentifier = userId,
                          linkingObjectIdentifier = fileId\<rparr>;
              premisData' = premisData\<lparr>events := events premisData @ [newEvent]\<rparr>
          in if fails UpdatePremisJson then (Inl DbError, d)
             else (Inr (),
                   d\<lparr>metadata_premis := map
                      (\<lambda>r. if p_file_id r = fileId
                           then r\<lparr>premis_json := premisData', p_updated_at := now\<rparr> else r)
                      (metadata_premis d)\<rparr>)))"

definition fixity_detail :: "bool \<Rightarrow> string \<Rightarrow> string \<Rightarrow> string" where
  "fixity_detail isValid storedHash currentHash =
     ''Fixity check '' @ (if isValid then ''passed'' else ''FAILED'') @ '' - stored: '' @ storedHash
       @ '', current: '' @ currentHash"

definition validateFixity ::
  "(stmt \<Rightarrow> bool) \<Rightarrow> int \<Rightarrow> string \<Rightarrow> string \<Rightarrow> string \<Rightarrow> db \<Rightarrow> (error + bool) \<times> db" where
  "validateFixity fails now eventId fileId currentHash d =
     (if fails SelectMessageDigest then (Inl DbError, d)
      else case filter (\<lambda>r. p_file_id r = fileId) (metadata_premis d) of
        [] \<Rightarrow> (Inl PremisNotFound, d)
      | row # _ \<Rightarrow>
         (let storedHash = message_digest row;
              isValid = (storedHash = currentHash)
          in case recordPremisEvent fails now eventId fileId Validation
                    (fixity_detail isValid storedHash currentHash) ''system'' d of
               (Inl e, d') \<Rightarrow> (Inl e, d')
             | (Inr u, d') \<Rightarrow> (Inr isValid, d')))"

text \<open>
  The composite view of \<^verbatim>\<open>getFileWithMetadata\<close>: the first row of the join of the file
  with its descriptive and preservation rows, or nothing when no file row has the id.
\<close>

record archive_file =
  af_id :: string
  af_filename :: string
  af_filePath :: string
  af_fileHash :: string
  af_mimeType :: string
  af_fileSize :: int
  af_currentVersion :: int
  af_dublinCore :: dublin_core
  af_events :: "premis_event list"
  af_checksum :: string
  af_isAccessible :: bool
  af_accessLevel :: string

definition first_row :: "'a list \<Rightarrow> 'a option" where
  "first_row rows = (case rows of [] \<Rightarrow> None | r # _ \<Rightarrow> Some r)"

definition getFileWithMetadata ::
  "(stmt \<Rightarrow> bool) \<Rightarrow> string \<Rightarrow> db \<Rightarrow> error + archive_file option" where
  "getFileWithMetadata fails fileId d =
     (if fails SelectFileWithMetadata then Inl DbError
      else case filter (\<lambda>r. f_id r = fileId) (files d) of
        [] \<Rightarrow> Inr None
      | row # _ \<Rightarrow>
         (let dc = first_row (filter (\<lambda>r. dc_file_id r = fileId) (metadata_dublin_core d));
              p = first_row (filter (\<lambda>r. p_file_id r = fileId) (metadata_premis d))
          in Inr (Some \<lparr>
               af_id = f_id row, af_filename = filename row, af_filePath = file_path row,
               af_fileHash = file_hash row, af_mimeType = mime_type row,
               af_fileSize = file_size row, af_currentVersion = current_version row,
               af_dublinCore = \<lparr>dc_identifier = Some (f_id row),
                  dc_title = Some (case dc of None \<Rightarrow> [] | Some r \<Rightarrow> title r),
                  dc_creator = Some (or_else (case dc of None \<Rightarrow> None | Some r \<Rightarrow> creator r) []),
                  dc_subject = None, dc_description = None, dc_publisher = None, dc_date = None,
                  dc_type = Some (or_else (case dc of None \<Rightarrow> None | Some r \<Rightarrow> type_column r) ''document''),
                  dc_format = Some (or_else (case dc of None \<Rightarrow> None | Some r \<Rightarrow> format r) (mime_type row)),
                  dc_language = Some (or_else (case dc of None \<Rightarrow> None | Some r \<Rightarrow> language r) ''pl''),
                  dc_rights = None, dc_source = None\<rparr>,
               af_events = (case p of None \<Rightarrow> [] | Some r \<Rightarrow> events (premis_json r)),
               af_checksum = (case p of None \<Rightarrow> file_hash row
                               | Some r \<Rightarrow> if message_digest r = [] then file_hash row else message_digest r),
               af_isAccessible = True,
               af_accessLevel = access_level row\<rparr>)))"


section \<open>Archive content service (services/files.ts)\<close>

record register_metadata =
  rm_title :: "string option"
  rm_description :: "string option"
  rm_creator :: "string option"
  rm_language :: "string option"
  rm_accessLevel :: "string option"

text \<open>\<^verbatim>\<open>filePath.split('/').pop()\<close>: what follows the last slash.\<close>

definition last_segment :: "string \<Rightarrow> string" where
  "last_segment path = rev (takeWhile (\<lambda>c. c \<noteq> CHR ''/'') (rev path))"

text \<open>
  The callback that \<^verbatim>\<open>registerFile\<close> hands to \<^verbatim>\<open>withTransaction\<close>. Only the insert into
  \<^verbatim>\<open>files\<close> goes through the client; \<^verbatim>\<open>createDublinCoreMetadata\<close>,
  \<^verbatim>\<open>createPremisMetadata\<close> and \<^verbatim>\<open>logAction\<close> call \<^verbatim>\<open>query\<close>.
\<close>

definition registerFile_tx ::
  "(stmt \<Rightarrow> bool) \<Rightarrow> int \<Rightarrow> string \<Rightarrow> string \<Rightarrow> string \<Rightarrow> string \<Rightarrow> int \<Rightarrow> string \<Rightarrow> string
     \<Rightarrow> string \<Rightarrow> string \<Rightarrow> register_metadata option \<Rightarrow> db
     \<Rightarrow> (error + file_row) \<times> db \<times> pending_write list" where
  "registerFile_tx fails now newFileId eventId auditId filename' statSize filePath fileHash mimeType
       createdBy metadata d =
     (if fails InsertFile then (Inl DbError, d, [])
      else
        let file = \<lparr>f_id = newFileId, filename = filename', file_path = filePath,
                    file_hash = fileHash, mime_type = mimeType, file_size = statSize,
                    created_by = createdBy,
                    access_level = or_else (Option.bind metadata rm_accessLevel) ''public'',
                    f_description = Option.bind metadata rm_description,
                    a11y_description = Option.bind metadata rm_description,
                    current_version = 1, is_accessible = True, is_deleted = False,
                    deleted_at = None, f_created_at = now, f_updated_at = now\<rparr>;
            pending = [InsertFileRow file]
        in case createDublinCoreMetadata fails now (f_id file)
                  \<lparr>dc_identifier = None, dc_title = Some filename',
                   dc_creator = Some (or_else (Option.bind metadata rm_creator) ''Unknown''),
                   dc_subject = None,
                   dc_description = Option.bind metadata rm_description,
                   dc_publisher = None, dc_date = None, dc_type = None,
                   dc_format = Some mimeType,
                   dc_language = Some (or_else (Option.bind metadata rm_language) ''pl''),
                   dc_rights = None, dc_source = None\<rparr> d of
             (Inl e, d1) \<Rightarrow> (Inl e, d1, pending)
           | (Inr dc, d1) \<Rightarrow>
              (case createPremisMetadata fails now eventId (f_id file) fileHash mimeType d1 of
                 (Inl e, d2) \<Rightarrow> (Inl e, d2, pending)
               | (Inr premis, d2) \<Rightarrow>
                  (case logAction fails now auditId (Some createdBy) CREATE ResFile (f_id file)
                          (no_options\<lparr>opt_newValue := Some (FileValue file),
                                      opt_reason := Some ''File registered in archive''\<rparr>) d2 of
                     (Inl e, d3) \<Rightarrow> (Inl e, d3, pending)
                   | (Inr entry, d3) \<Rightarrow> (Inr file, d3, pending))))"

definition registerFile ::
  "(stmt \<Rightarrow> bool) \<Rightarrow> disk \<Rightarrow> int \<Rightarrow> string \<Rightarrow> string \<Rightarrow> string \<Rightarrow> string \<Rightarrow> string \<Rightarrow> string
     \<Rightarrow> string \<Rightarrow> register_metadata option \<Rightarrow> db \<Rightarrow> (error + file_row) \<times> db" where
  "registerFile fails disk now newFileId eventId auditId filePath fileHash mimeType createdBy metadata d =
     (let filename' = or_else (Option.bind metadata rm_title)
                        (or_else (Some (last_segment filePath)) ''unknown'')
      in case disk filePath of
           None \<Rightarrow> (Inl IOError, d)
         | Some stats \<Rightarrow>
             withTransaction fails
               (registerFile_tx fails now newFileId eventId auditId filename' (size stats) filePath
                  fileHash mimeType createdBy metadata) d)"

text \<open>Decimal rendering of a number inside a template string.\<close>

fun show_nat :: "nat \<Rightarrow> string" where
  "show_nat n = (if n < 10 then [''0123456789'' ! n]
                 else show_nat (n div 10) @ [''0123456789'' ! (n mod 10)])"

definition show_int :: "int \<Rightarrow> string" where
  "show_int i = (if i < 0 then CHR ''-'' # show_nat (nat (- i)) else show_nat (nat i))"

text \<open>
  \<^verbatim>\<open>createVersion\<close>, in the two parts of its callback: the first statement, which reads
  the current version and hash of the file through the client, and the rest, which
  runs with what was read. The version row and the update of the file row go through
  the client; \<^verbatim>\<open>recordPremisEvent\<close> and \<^verbatim>\<open>logAction\<close> call \<^verbatim>\<open>query\<close>.
  The insert of the version row is rejected when the table holds a row with the same
  file and version number (\<^verbatim>\<open>UNIQUE (file_id, version_number)\<close> in schema.sql).
\<close>

definition createVersion_select ::
  "(stmt \<Rightarrow> bool) \<Rightarrow> string \<Rightarrow> db \<Rightarrow> error + (int \<times> string)" where
  "createVersion_select fails fileId d =
     (if fails SelectCurrentVersion then Inl DbError
      else case filter (\<lambda>r. f_id r = fileId) (files d) of
        [] \<Rightarrow> Inl FileNotFound
      | row # _ \<Rightarrow> Inr (current_version row, file_hash row))"

definition createVersion_rest ::
  "(stmt \<Rightarrow> bool) \<Rightarrow> disk \<Rightarrow> int \<Rightarrow> string \<Rightarrow> string \<Rightarrow> string \<Rightarrow> string \<Rightarrow> string \<Rightarrow> string
     \<Rightarrow> string \<Rightarrow> string option \<Rightarrow> int \<times> string \<Rightarrow> db
     \<Rightarrow> (error + version_row) \<times> db \<times> pending_write list" where
  "createVersion_rest fails disk now newVersionId eventId auditId fileId newFilePath newFileHash
       createdBy changeSummary selected d =
     (let previousVersion = fst selected;
          newVersion = previousVersion + 1;
          previousHash' = snd selected
      in case disk newFilePath of
           None \<Rightarrow> (Inl IOError, d, [])
         | Some stats \<Rightarrow>
            if fails InsertVersion
               \<or> (\<exists>v \<in> set (file_versions d). v_file_id v = fileId \<and> version_number v = newVersion)
            then (Inl DbError, d, [])
            else
              let version = \<lparr>v_id = newVersionId, v_file_id = fileId, version_number = newVersion,
                     v_file_hash = newFileHash, v_file_size = size stats, v_created_by = createdBy,
                     change_summary = changeSummary,
                     v_change_details = \<lparr>previousHash = previousHash', previousSize = 0,
                                          diffSize = size stats, formatChanged = False\<rparr>,
                     v_created_at = now\<rparr>
              in if fails UpdateFileVersion then (Inl DbError, d, [InsertVersionRow version])
                 else
                   let pending = [InsertVersionRow version,
                                  SetFileVersion fileId newFilePath newFileHash (size stats) newVersion now]
                   in (case recordPremisEvent fails now eventId fileId Modification
                             (''Version '' @ show_int newVersion @ '' created: ''
                                @ or_else changeSummary ''No description'') createdBy d of
                        (Inl e, d1) \<Rightarrow> (Inl e, d1, pending)
                      | (Inr u, d1) \<Rightarrow>
                         (case logAction fails now auditId (Some createdBy) UPDATE ResFile fileId
                                 (no_options\<lparr>opt_previousValue := Some (VersionValue previousVersion),
                                             opt_newValue := Some (VersionValue newVersion),
                                             opt_reason := changeSummary\<rparr>) d1 of
                            (Inl e, d2) \<Rightarrow> (Inl e, d2, pending)
                          | (Inr entry, d2) \<Rightarrow> (Inr version, d2, pending))))"

definition createVersion_tx ::
  "(stmt \<Rightarrow> bool) \<Rightarrow> disk \<Rightarrow> int \<Rightarrow> string \<Rightarrow> string \<Rightarrow> string \<Rightarrow> string \<Rightarrow> string \<Rightarrow> string
     \<Rightarrow> string \<Rightarrow> string option \<Rightarrow> db
     \<Rightarrow> (error + version_row) \<times> db \<times> pending_write list" where
  "createVersion_tx fails disk now newVersionId eventId auditId fileId newFilePath newFileHash
       createdBy changeSummary d =
     (case createVersion_select fails fileId d of
        Inl e \<Rightarrow> (Inl e, d, [])
      | Inr selected \<Rightarrow>
          createVersion_rest fails disk now newVersionId eventId auditId fileId newFilePath
            newFileHash createdBy changeSummary selected d)"

definition createVersion ::
  "(stmt \<Rightarrow> bool) \<Rightarrow> disk \<Rightarrow> int \<Rightarrow> string \<Rightarrow> string \<Rightarrow> string \<Rightarrow> string \<Rightarrow> string \<Rightarrow> string
     \<Rightarrow> string \<Rightarrow> string option \<Rightarrow> db \<Rightarrow> (error + version_row) \<times> db" where
  "createVersion fails disk now newVersionId eventId auditId fileId newFilePath newFileHash
       createdBy changeSummary d =
     withTransaction fails
       (createVersion_tx fails disk now newVersionId eventId auditId fileId newFilePath
          newFileHash createdBy changeSummary) d"

definition deleteFile ::
  "(stmt \<Rightarrow> bool) \<Rightarrow> int \<Rightarrow> string \<Rightarrow> string \<Rightarrow> string \<Rightarrow> string option \<Rightarrow> db
     \<Rightarrow> (error + unit) \<times> db" where
  "deleteFile fails now auditId fileId deletedBy reason d =
     withTransaction fails
       (\<lambda>d. if fails UpdateSoftDelete then (Inl DbError, d, [])
             else case logAction fails now auditId (Some deletedBy) DELETE ResFile fileId
                         (no_options\<lparr>opt_reason := Some (or_else reason ''File moved to archive'')\<rparr>) d of
                    (Inl e, d1) \<Rightarrow> (Inl e, d1, [SoftDelete fileId now])
                  | (Inr entry, d1) \<Rightarrow> (Inr (), d1, [SoftDelete fileId now])) d"

definition restoreFile ::
  "(stmt \<Rightarrow> bool) \<Rightarrow> int \<Rightarrow> string \<Rightarrow> db \<Rightarrow> (error + unit) \<times> db" where
  "restoreFile fails now fileId d =
     withTransaction fails
       (\<lambda>d. if fails UpdateRestore then (Inl DbError, d, [])
             else (Inr (), d, [Restore fileId now])) d"

definition getFile ::
  "(stmt \<Rightarrow> bool) \<Rightarrow> int \<Rightarrow> string \<Rightarrow> string \<Rightarrow> string option \<Rightarrow> db
     \<Rightarrow> (error + archive_file option) \<times> db" where
  "getFile fails now auditId fileId userId d =
     (case userId of
        None \<Rightarrow> (getFileWithMetadata fails fileId d, d)
      | Some uid \<Rightarrow>
          if uid = [] then (getFileWithMetadata fails fileId d, d)
          else (case logAction fails now auditId (Some uid) READ ResFile fileId no_options d of
                 (Inl e, d1) \<Rightarrow> (Inl e, d1)
               | (Inr entry, d1) \<Rightarrow> (getFileWithMetadata fails fileId d1, d1)))"

text \<open>The two flags of the rows of a file.\<close>

definition file_flags :: "string \<Rightarrow> db \<Rightarrow> (bool \<times> bool) list" where
  "file_flags fileId d =
     map (\<lambda>r. (is_accessible r, is_deleted r)) (filter (\<lambda>r. f_id r = fileId) (files d))"


section \<open>Views and concrete stores used in the verification\<close>

definition premis_events :: "string \<Rightarrow> db \<Rightarrow> premis_event list option" where
  "premis_events fileId d =
     (case filter (\<lambda>r. p_file_id r = fileId) (metadata_premis d) of
        [] \<Rightarrow> None
      | row # _ \<Rightarrow> Some (events (premis_json row)))"

definition empty_db :: db where
  "empty_db = \<lparr>files = [], metadata_dublin_core = [], metadata_premis = [],
                file_versions = [], audit_log = []\<rparr>"

definition db_premis :: db where
  "db_premis = snd (createPremisMetadata no_failure 1 ''e0'' ''f1'' ''abc123'' ''text/plain'' empty_db)"

definition premis_row_f1 :: premis_row where
  "premis_row_f1 = \<lparr>p_file_id = ''f1'', object_identifier = ''f1'', format_name = ''text/plain'',
      message_digest = ''abc123'', message_digest_algorithm = ''SHA-256'',
      preservation_level = ''fulPreservation'',
      premis_json = \<lparr>objectIdentifier = ''f1'', compositionLevel = 0,
         messageDigestAlgorithm = ''SHA-256'', messageDigest = ''abc123'',
         messageDigestValidation = 1, formatRegistry = ''PRONOM'', formatName = ''text/plain'',
         preservationLevel = ''fulPreservation'',
         events = [\<lparr>eventIdentifier = ''e0'', eventType = Creation, eventDateTime = 1,
                    eventDetail = ''File added to archive'', linkingAgentIdentifier = ''system'',
                    linkingObjectIdentifier = ''f1''\<rparr>]\<rparr>,
      p_updated_at = 1\<rparr>"



definition disk0 :: disk where
  "disk0 = (\<lambda>p. if p = ''/store/report.pdf'' then Some \<lparr>size = 120, sha256 = ''abc123''\<rparr>
                 else if p = ''/store/report_v2.pdf'' then Some \<lparr>size = 150, sha256 = ''fed987''\<rparr>
                 else None)"

definition db_registered :: db where
  "db_registered = snd (registerFile no_failure disk0 1 ''f1'' ''e0'' ''a0'' ''/store/report.pdf''
      ''abc123'' ''application/pdf'' ''u1'' None empty_db)"

definition db_deleted :: db where
  "db_deleted = snd (deleteFile no_failure 2 ''a1'' ''f1'' ''u1'' None db_registered)"

section \<open>Fixity service (services/fixity.ts)\<close>

record verify_result =
  vr_fileId :: string
  vr_isValid :: bool
  vr_error :: "string option"

text \<open>The \<^verbatim>\<open>message\<close> of a caught error.\<close>

definition message_of :: "error \<Rightarrow> string" where
  "message_of e = (case e of
       DbError \<Rightarrow> ''database error''
     | IOError \<Rightarrow> ''read error''
     | FileNotFound \<Rightarrow> ''File not found''
     | MetadataNotFound \<Rightarrow> ''Metadata not found''
     | PremisNotFound \<Rightarrow> ''PREMIS metadata not found''
     | ConfigurationError \<Rightarrow> ''FATAL: ENCRYPTION_KEY is not set or is invalid''
     | EncryptionFailed \<Rightarrow> ''Encryption failed''
     | DecryptionFailed \<Rightarrow> ''Decryption failed - data may be corrupted or wrong key'')"

text \<open>
  \<^verbatim>\<open>verifyFile\<close>. The outer \<^verbatim>\<open>catch\<close> turns a raised error into a result with
  \<^verbatim>\<open>isValid: false\<close>, so the function returns in every case. A path that is on the disk
  can be read to its end.
\<close>

definition verifyFile ::
  "(stmt \<Rightarrow> bool) \<Rightarrow> disk \<Rightarrow> int \<Rightarrow> string \<Rightarrow> string \<Rightarrow> db \<Rightarrow> verify_result \<times> db" where
  "verifyFile fails disk now auditId fileId d =
     (if fails SelectFileForFixity
      then (\<lparr>vr_fileId = fileId, vr_isValid = False, vr_error = Some (message_of DbError)\<rparr>, d)
      else case filter (\<lambda>r. f_id r = fileId) (files d) of
        [] \<Rightarrow> (\<lparr>vr_fileId = fileId, vr_isValid = False, vr_error = Some ''File not found''\<rparr>, d)
      | file # _ \<Rightarrow>
         (case disk (file_path file) of
            None \<Rightarrow> (\<lparr>vr_fileId = fileId, vr_isValid = False,
                       vr_error = Some ''File does not exist on disk''\<rparr>, d)
          | Some content \<Rightarrow>
             (let currentHash = sha256 content;
                  isValid = (currentHash = file_hash file)
              in if \<not> isValid
                 then (case logAction fails now auditId None VALIDATE ResFile fileId
                              (no_options\<lparr>opt_errorMessage :=
                                 Some (''Fixity check failed - stored: '' @ file_hash file
                                        @ '', current: '' @ currentHash)\<rparr>) d of
                         (Inl e, d1) \<Rightarrow>
                           (\<lparr>vr_fileId = fileId, vr_isValid = False, vr_error = Some (message_of e)\<rparr>, d1)
                       | (Inr entry, d1) \<Rightarrow>
                           (\<lparr>vr_fileId = fileId, vr_isValid = isValid, vr_error = None\<rparr>, d1))
                 else (\<lparr>vr_fileId = fileId, vr_isValid = isValid, vr_error = None\<rparr>, d))))"

datatype fixity_status = StatusValid | StatusInvalid | StatusUnknown

record fixity_check =
  fc_timestamp :: int
  fc_isValid :: bool
  fc_storedHash :: string
  fc_currentHash :: "string option"

record fixity_report =
  fr_fileId :: string
  fr_lastChecked :: "int option"
  fr_status :: fixity_status
  fr_checks :: "fixity_check list"

text \<open>
  \<^verbatim>\<open>SELECT created_at, details FROM audit_log WHERE resource_id = $1 AND action = 'VALIDATE'
  ORDER BY created_at DESC LIMIT 20\<close>. Rows with the same time stamp come in the order
  of their insertion.
\<close>

definition select_validate_log :: "string \<Rightarrow> db \<Rightarrow> audit_row list" where
  "select_validate_log fileId d =
     take 20 (sort_key (\<lambda>r. - a_created_at r)
        (filter (\<lambda>r. a_resource_id r = fileId \<and> a_action r = VALIDATE) (audit_log d)))"

definition check_of_row :: "audit_row \<Rightarrow> fixity_check" where
  "check_of_row row =
     (let details = a_details row in
      \<lparr>fc_timestamp = a_created_at row,
       fc_isValid = (\<not> (Option.bind details det_severity = Some ''critical'')),
       fc_storedHash = or_else (Option.bind details det_storedHash) [],
       fc_currentHash = Option.bind details det_currentHash\<rparr>)"

definition getFixityReport :: "(stmt \<Rightarrow> bool) \<Rightarrow> string \<Rightarrow> db \<Rightarrow> error + fixity_report" where
  "getFixityReport fails fileId d =
     (if fails SelectFileForReport then Inl DbError
      else if filter (\<lambda>r. f_id r = fileId) (files d) = []
      then Inr \<lparr>fr_fileId = fileId, fr_lastChecked = None, fr_status = StatusUnknown, fr_checks = []\<rparr>
      else if fails SelectValidateLog then Inl DbError
      else
        let checks = map check_of_row (select_validate_log fileId d);
            lastCheck = first_row checks;
            status = (if map_option fc_isValid lastCheck = Some False then StatusInvalid
                      else if lastCheck \<noteq> None then StatusValid
                      else StatusUnknown)
        in Inr \<lparr>fr_fileId = fileId, fr_lastChecked = map_option fc_timestamp lastCheck,
                fr_status = status, fr_checks = checks\<rparr>)"




section \<open>Encryption service (services/encryption.ts)\<close>

text \<open>
  A byte is a \<^typ>\<open>char\<close>, a buffer a list of bytes. A plaintext is represented by the
  bytes of its UTF-8 encoding, which is what \<^verbatim>\<open>cipher.update(plaintext, 'utf8', 'hex')\<close>
  encrypts and \<^verbatim>\<open>decipher.final('utf8')\<close> turns back into the string.
  The cipher itself (AES-256-GCM of Node's \<^verbatim>\<open>crypto\<close>) is a parameter of the
  operations: \<open>seal key iv plaintext\<close> gives the ciphertext and the authentication
  tag, \<open>unseal key iv tag ciphertext\<close> the plaintext, or nothing when authentication
  fails.
\<close>

type_synonym bytes = string


type_synonym unseal_fn = "bytes \<Rightarrow> bytes \<Rightarrow> bytes \<Rightarrow> bytes \<Rightarrow> bytes option"



text \<open>
  \<^verbatim>\<open>Buffer.from(text, 'hex')\<close>: digits of either case, two per byte; decoding stops at
  the first pair that is not two hex digits.
\<close>

definition hex_value :: "char \<Rightarrow> nat option" where
  "hex_value c =
     (let n = (of_char c :: nat) in
      if 48 \<le> n \<and> n \<le> 57 then Some (n - 48)
      else if 97 \<le> n \<and> n \<le> 102 then Some (n - 87)
      else if 65 \<le> n \<and> n \<le> 70 then Some (n - 55)
      else None)"

fun from_hex :: "string \<Rightarrow> bytes" where
  "from_hex (a # b # rest) =
     (case hex_value a of
        None \<Rightarrow> []
      | Some h \<Rightarrow> (case hex_value b of
                     None \<Rightarrow> []
                   | Some l \<Rightarrow> char_of (16 * h + l) # from_hex rest))"
| "from_hex [a] = []"
| "from_hex [] = []"

text \<open>
  The key: \<^verbatim>\<open>initialize\<close> reads \<^verbatim>\<open>ENCRYPTION_KEY\<close> and refuses an absent or empty
  value, the placeholder and a key that is not 32 bytes long; \<^verbatim>\<open>getKey\<close> initializes
  on first use. The state of the service is the cached key and the environment value.
\<close>

record encryption_state =
  encryptionKey :: "bytes option"
  ENCRYPTION_KEY :: "string option"

definition initialize :: "string option \<Rightarrow> error + bytes" where
  "initialize keyHex =
     (case keyHex of
        None \<Rightarrow> Inl ConfigurationError
      | Some k \<Rightarrow>
          if k = [] \<or> k = ''your-32-byte-hex-key-change-in-production''
          then Inl ConfigurationError
          else if length (from_hex k) \<noteq> 32 then Inl ConfigurationError
          else Inr (from_hex k))"

definition getKey :: "encryption_state \<Rightarrow> error + bytes" where
  "getKey st = (case encryptionKey st of Some key \<Rightarrow> Inr key | None \<Rightarrow> initialize (ENCRYPTION_KEY st))"


definition decrypt :: "unseal_fn \<Rightarrow> encryption_state \<Rightarrow> string \<Rightarrow> error + string" where
  "decrypt unseal st ciphertext =
     (case getKey st of
        Inl e \<Rightarrow> Inl DecryptionFailed
      | Inr key \<Rightarrow>
          (let iv = from_hex (take 32 ciphertext);
               authTag = from_hex (take 32 (drop 32 ciphertext));
               encrypted = drop 64 ciphertext
           in case unseal key iv authTag (from_hex encrypted) of
                None \<Rightarrow> Inl DecryptionFailed
              | Some decrypted \<Rightarrow> Inr decrypted))"

text \<open>
  Objects for \<^verbatim>\<open>decryptObject\<close>: a record of JavaScript values by key. \<^verbatim>\<open>JSON.parse\<close>
  is a parameter: the value it returns, or nothing when it throws.
\<close>

datatype js_value =
    JUndefined
  | JNull
  | JBool bool
  | JNumber int
  | JString string
  | JArray "js_value list"
  | JObject "(string \<times> js_value) list"

definition decrypt_field ::
  "unseal_fn \<Rightarrow> encryption_state \<Rightarrow> (string \<Rightarrow> js_value option) \<Rightarrow> (string \<rightharpoonup> js_value) \<Rightarrow> string
     \<Rightarrow> (string \<rightharpoonup> js_value)" where
  "decrypt_field unseal st parse decrypted fieldKey =
     (case decrypted fieldKey of
        None \<Rightarrow> decrypted
      | Some JNull \<Rightarrow> decrypted
      | Some JUndefined \<Rightarrow> decrypted
      | Some (JString v) \<Rightarrow>
          (case decrypt unseal st v of
             Inr decryptedValue \<Rightarrow>
               (case parse decryptedValue of
                  Some parsed \<Rightarrow> decrypted(fieldKey \<mapsto> parsed)
                | None \<Rightarrow> decrypted(fieldKey \<mapsto> JString decryptedValue))
           | Inl e \<Rightarrow> decrypted(fieldKey \<mapsto> JString v))
      | Some other \<Rightarrow> decrypted)"

definition decryptObject ::
  "unseal_fn \<Rightarrow> encryption_state \<Rightarrow> (string \<Rightarrow> js_value option) \<Rightarrow> (string \<rightharpoonup> js_value)
     \<Rightarrow> string list \<Rightarrow> (string \<rightharpoonup> js_value)" where
  "decryptObject unseal st parse obj fieldsToDecrypt =
     foldl (decrypt_field unseal st parse) obj fieldsToDecrypt"


text \<open>
  A checksum cipher for the concrete instances: it does not hide anything, and it
  detects every change of a single byte.
\<close>

definition toy_tag :: "bytes \<Rightarrow> bytes \<Rightarrow> bytes" where
  "toy_tag iv ct = char_of (sum_list (map of_char (iv @ ct)) :: nat) # replicate 15 (CHR 0x00)"


definition toy_unseal :: unseal_fn where
  "toy_unseal key iv tag ct = (if tag = toy_tag iv ct then Some ct else None)"

definition st0 :: encryption_state where
  "st0 = \<lparr>encryptionKey = None,
          ENCRYPTION_KEY = Some ''000102030405060708090a0b0c0d0e0f101112131415161718191A1B1C1D1E1F''\<rparr>"



definition sealed_hi :: string where
  "sealed_hi = ''30313233343536373839616263646566330000000000000000000000000000006869''"


definition parse_none :: "string \<Rightarrow> js_value option" where
  "parse_none text = None"

definition contact :: "string \<rightharpoonup> js_value" where
  "contact = [''email'' \<mapsto> JString ''zz'', ''phone'' \<mapsto> JString sealed_hi, ''name'' \<mapsto> JNull]"

(*VERIFICATION*)
section \<open>Verification: account lockout\<close>

















text \<open>
  Claim C9. Whatever statements the store rejects, \<^verbatim>\<open>isAccountLocked\<close> does not raise:
  when its \<^verbatim>\<open>try\<close> block raises (in particular when the first query is rejected) it
  returns false, locked account or not. \<^verbatim>\<open>recordFailedAttempt\<close> does not raise
  either: when its \<^verbatim>\<open>try\<close> block raises it returns with the table as it was.
\<close>

theorem lockout_errors_swallowed:
  "(fails SelectLockedUntil \<longrightarrow> isAccountLocked fails now name users = Inr (False, users))
   \<and> (\<forall>e. isAccountLocked_try fails now name users = Inl e \<longrightarrow>
          isAccountLocked fails now name users = Inr (False, users))
   \<and> (\<forall>e. isAccountLocked fails now name users \<noteq> Inl e)
   \<and> (\<forall>e. recordFailedAttempt_try fails now name users = Inl e \<longrightarrow>
          recordFailedAttempt fails now name users = Inr users)
   \<and> (\<forall>e. recordFailedAttempt fails now name users \<noteq> Inl e)"
  by (simp add: isAccountLocked_def isAccountLocked_try_def recordFailedAttempt_def
      split: sum.splits)

theorem lockout_errors_swallowed_witness:
  "isAccountLocked no_failure 60 ''alice'' [alice_locked] = Inr (True, [alice_locked])
   \<and> isAccountLocked_try (\<lambda>s. s = SelectLockedUntil) 60 ''alice'' [alice_locked] = Inl DbError
   \<and> isAccountLocked (\<lambda>s. s = SelectLockedUntil) 60 ''alice'' [alice_locked] = Inr (False, [alice_locked])
   \<and> recordFailedAttempt_try (\<lambda>s. s = SelectUserId) 60 ''alice'' [alice_locked] = Inl DbError
   \<and> recordFailedAttempt (\<lambda>s. s = SelectUserId) 60 ''alice'' [alice_locked] = Inr [alice_locked]"
  using lockout_errors_swallowed [of "\<lambda>s. s = SelectLockedUntil" 60 "''alice''" "[alice_locked]"]
    lockout_errors_swallowed [of "\<lambda>s. s = SelectUserId" 60 "''alice''" "[alice_locked]"]
  by (simp add: isAccountLocked_def isAccountLocked_try_def recordFailedAttempt_try_def
      no_failure_def alice_locked_def)

section \<open>Verification: metadata service\<close>

lemma filter_premis_update:
  assumes "\<And>r. p_file_id (h r) = p_file_id r"
  shows "filter (\<lambda>r. p_file_id r = fileId) (map (\<lambda>r. if p_file_id r = fileId then h r else r) rows)
       = map h (filter (\<lambda>r. p_file_id r = fileId) rows)"
  using assms by (induction rows) auto

lemma recordPremisEvent_appends:
  assumes "filter (\<lambda>r. p_file_id r = fileId) (metadata_premis d) = row # rest"
  shows "\<exists>d'. recordPremisEvent no_failure now eventId fileId evType evDetail userId d = (Inr (), d')
     \<and> premis_events fileId d' = Some (events (premis_json row) @
          [\<lparr>eventIdentifier = eventId, eventType = evType, eventDateTime = now,
            eventDetail = evDetail, linkingAgentIdentifier = userId,
            linkingObjectIdentifier = fileId\<rparr>])
     \<and> files d' = files d \<and> metadata_dublin_core d' = metadata_dublin_core d
     \<and> file_versions d' = file_versions d \<and> audit_log d' = audit_log d"
  using assms
  by (simp add: recordPremisEvent_def no_failure_def premis_events_def filter_premis_update Let_def)

text \<open>
  Claim C5. For a file id that has a preservation record, and with no statement
  rejected, \<^verbatim>\<open>validateFixity\<close> returns whether the current digest equals the stored
  one, and the event list of the record afterwards is the list before with exactly one
  event appended: a \<^verbatim>\<open>validation\<close> event of agent \<^verbatim>\<open>system\<close> whose detail reads
  \<^verbatim>\<open>Fixity check passed\<close> or \<^verbatim>\<open>Fixity check FAILED\<close>, followed by the stored and the
  current digest. This holds on a match and on a mismatch alike; the other tables are
  untouched.
\<close>

theorem validateFixity_records_event:
  assumes "filter (\<lambda>r. p_file_id r = fileId) (metadata_premis d) = row # rest"
  shows "\<exists>d'. validateFixity no_failure now eventId fileId currentHash d
                  = (Inr (message_digest row = currentHash), d')
     \<and> premis_events fileId d' = Some (events (premis_json row) @
          [\<lparr>eventIdentifier = eventId, eventType = Validation, eventDateTime = now,
            eventDetail = ''Fixity check ''
               @ (if message_digest row = currentHash then ''passed'' else ''FAILED'')
               @ '' - stored: '' @ message_digest row @ '', current: '' @ currentHash,
            linkingAgentIdentifier = ''system'',
            linkingObjectIdentifier = fileId\<rparr>])
     \<and> files d' = files d \<and> metadata_dublin_core d' = metadata_dublin_core d
     \<and> file_versions d' = file_versions d \<and> audit_log d' = audit_log d"
proof -
  obtain d' where d': "recordPremisEvent no_failure now eventId fileId Validation
        (fixity_detail (message_digest row = currentHash) (message_digest row) currentHash)
        ''system'' d = (Inr (), d')"
    "premis_events fileId d' = Some (events (premis_json row) @
          [\<lparr>eventIdentifier = eventId, eventType = Validation, eventDateTime = now,
            eventDetail = fixity_detail (message_digest row = currentHash) (message_digest row) currentHash,
            linkingAgentIdentifier = ''system'',
            linkingObjectIdentifier = fileId\<rparr>])"
    "files d' = files d" "metadata_dublin_core d' = metadata_dublin_core d"
    "file_versions d' = file_versions d" "audit_log d' = audit_log d"
    using recordPremisEvent_appends [OF assms] by blast
  have "validateFixity no_failure now eventId fileId currentHash d
                  = (Inr (message_digest row = currentHash), d')"
    using assms d'(1) by (simp add: validateFixity_def no_failure_def Let_def)
  with d'(2-) show ?thesis by (simp add: fixity_detail_def)
qed

lemma db_premis_rows: "metadata_premis db_premis = [premis_row_f1]"
  by (simp add: db_premis_def createPremisMetadata_def no_failure_def empty_db_def
      premis_row_f1_def Let_def)

text \<open>
  The theorem at a record seeded by \<^verbatim>\<open>createPremisMetadata\<close>, once with a different
  digest and once with the stored one.
\<close>

theorem validateFixity_records_event_witness:
  "filter (\<lambda>r. p_file_id r = ''f1'') (metadata_premis db_premis) = premis_row_f1 # []
   \<and> (\<exists>d'. validateFixity no_failure 5 ''e1'' ''f1'' ''def456'' db_premis = (Inr False, d')
        \<and> premis_events ''f1'' d' = Some (events (premis_json premis_row_f1) @
          [\<lparr>eventIdentifier = ''e1'', eventType = Validation, eventDateTime = 5,
            eventDetail = ''Fixity check FAILED - stored: abc123, current: def456'',
            linkingAgentIdentifier = ''system'', linkingObjectIdentifier = ''f1''\<rparr>]))
   \<and> (\<exists>d'. validateFixity no_failure 5 ''e1'' ''f1'' ''abc123'' db_premis = (Inr True, d')
        \<and> premis_events ''f1'' d' = Some (events (premis_json premis_row_f1) @
          [\<lparr>eventIdentifier = ''e1'', eventType = Validation, eventDateTime = 5,
            eventDetail = ''Fixity check passed - stored: abc123, current: abc123'',
            linkingAgentIdentifier = ''system'', linkingObjectIdentifier = ''f1''\<rparr>]))"
proof -
  have h: "filter (\<lambda>r. p_file_id r = ''f1'') (metadata_premis db_premis) = premis_row_f1 # []"
    by (simp add: db_premis_rows) (simp add: premis_row_f1_def)
  have m: "message_digest premis_row_f1 = ''abc123''" by (simp add: premis_row_f1_def)
  show ?thesis
    using h validateFixity_records_event [OF h, of 5 "''e1''" "''def456''"]
      validateFixity_records_event [OF h, of 5 "''e1''" "''abc123''"]
    by (simp add: m) blast
qed


(* ---------- C6 ---------- *)




section \<open>Verification: soft delete and restore\<close>

lemma filter_files_update:
  assumes "\<And>r. f_id (g r) = f_id r"
  shows "filter (\<lambda>r. f_id r = fileId) (map (\<lambda>r. if f_id r = fileId then g r else r) rows)
       = map g (filter (\<lambda>r. f_id r = fileId) rows)"
  using assms by (induction rows) auto

lemma file_flags_update:
  assumes "\<And>r. f_id (g r) = f_id r"
  shows "file_flags fileId (update_files fileId g d)
     = map (\<lambda>r. (is_accessible (g r), is_deleted (g r))) (filter (\<lambda>r. f_id r = fileId) (files d))"
  using assms by (simp add: file_flags_def update_files_def filter_files_update)

lemma file_ids_update: 
  assumes "\<And>r. f_id (g r) = f_id r"
  shows "map f_id (files (update_files fileId g d)) = map f_id (files d)"
  using assms by (simp add: update_files_def)

lemma deleteFile_keeps_rows:
  "map f_id (files (snd (deleteFile fails now auditId fileId deletedBy reason d))) = map f_id (files d)"
  by (simp add: deleteFile_def withTransaction_def logAction_def apply_pending_def Let_def
      file_ids_update split: prod.splits sum.splits)

lemma restoreFile_keeps_rows:
  "map f_id (files (snd (restoreFile fails now fileId d))) = map f_id (files d)"
  by (simp add: restoreFile_def withTransaction_def apply_pending_def file_ids_update)

lemma deleteFile_ok:
  "\<exists>d1. deleteFile no_failure now auditId fileId deletedBy reason d = (Inr (), d1)
     \<and> file_flags fileId d1 = map (\<lambda>r. (False, True)) (filter (\<lambda>r. f_id r = fileId) (files d))
     \<and> map f_id (files d1) = map f_id (files d)"
  by (simp add: deleteFile_def withTransaction_def logAction_def apply_pending_def Let_def
      no_failure_def file_flags_def update_files_def filter_files_update)

lemma restoreFile_ok:
  "\<exists>d2. restoreFile no_failure now fileId d = (Inr (), d2)
     \<and> file_flags fileId d2 = map (\<lambda>r. (True, False)) (filter (\<lambda>r. f_id r = fileId) (files d))
     \<and> map f_id (files d2) = map f_id (files d)"
  by (simp add: restoreFile_def withTransaction_def apply_pending_def Let_def
      no_failure_def file_flags_def update_files_def filter_files_update)

lemma retrievable:
  assumes "fileId \<in> set (map f_id (files d))"
  shows "\<exists>af. getFileWithMetadata no_failure fileId d = Inr (Some af) \<and> af_id af = fileId"
proof -
  from assms have "filter (\<lambda>r. f_id r = fileId) (files d) \<noteq> []"
    by (auto simp: filter_empty_conv)
  then obtain row rest where rr: "filter (\<lambda>r. f_id r = fileId) (files d) = row # rest"
    by (cases "filter (\<lambda>r. f_id r = fileId) (files d)") auto
  then have "row \<in> set (filter (\<lambda>r. f_id r = fileId) (files d))" by simp
  then have "f_id row = fileId" by simp
  with rr show ?thesis
    by (simp add: getFileWithMetadata_def no_failure_def Let_def)
qed

text \<open>
  Claim C7, amended. For a file that is accessible and not deleted, \<^verbatim>\<open>deleteFile\<close>
  followed by \<^verbatim>\<open>restoreFile\<close> (no statement rejected) brings the two flags back to
  their values before the delete, and the file is returned by \<^verbatim>\<open>getFileWithMetadata\<close>
  before the delete, between the two calls and after the restore.
\<close>

theorem soft_delete_reversible:
  assumes live: "file_flags fileId d = [(True, False)]"
  shows "\<exists>d1 d2. deleteFile no_failure t1 auditId fileId deletedBy reason d = (Inr (), d1)
     \<and> file_flags fileId d1 = [(False, True)]
     \<and> restoreFile no_failure t2 fileId d1 = (Inr (), d2)
     \<and> file_flags fileId d2 = file_flags fileId d
     \<and> (\<forall>x \<in> {d, d1, d2}. \<exists>af. getFileWithMetadata no_failure fileId x = Inr (Some af)
                                 \<and> af_id af = fileId)"
proof -
  from live have len: "length (filter (\<lambda>r. f_id r = fileId) (files d)) = 1"
    by (metis file_flags_def length_map length_Cons list.size(3) One_nat_def)
  then obtain row where row: "filter (\<lambda>r. f_id r = fileId) (files d) = [row]"
    by (cases "filter (\<lambda>r. f_id r = fileId) (files d)") auto
  then have "row \<in> set (filter (\<lambda>r. f_id r = fileId) (files d))" by simp
  then have mem: "fileId \<in> set (map f_id (files d))" by auto
  obtain d1 where d1: "deleteFile no_failure t1 auditId fileId deletedBy reason d = (Inr (), d1)"
    "file_flags fileId d1 = map (\<lambda>r. (False, True)) (filter (\<lambda>r. f_id r = fileId) (files d))"
    "map f_id (files d1) = map f_id (files d)"
    using deleteFile_ok by blast
  obtain d2 where d2: "restoreFile no_failure t2 fileId d1 = (Inr (), d2)"
    "file_flags fileId d2 = map (\<lambda>r. (True, False)) (filter (\<lambda>r. f_id r = fileId) (files d1))"
    "map f_id (files d2) = map f_id (files d1)"
    using restoreFile_ok by blast
  have f1: "file_flags fileId d1 = [(False, True)]" using d1(2) row by simp
  then have "length (filter (\<lambda>r. f_id r = fileId) (files d1)) = 1"
    by (metis file_flags_def length_map length_Cons list.size(3) One_nat_def)
  then obtain row1 where "filter (\<lambda>r. f_id r = fileId) (files d1) = [row1]"
    by (cases "filter (\<lambda>r. f_id r = fileId) (files d1)") auto
  with d2(2) live have f2: "file_flags fileId d2 = file_flags fileId d" by simp
  have "\<exists>af. getFileWithMetadata no_failure fileId x = Inr (Some af) \<and> af_id af = fileId"
    if "x \<in> {d, d1, d2}" for x
  proof -
    from that d1(3) d2(3) have "map f_id (files x) = map f_id (files d)" by auto
    with mem have "fileId \<in> set (map f_id (files x))" by simp
    then show ?thesis by (rule retrievable)
  qed
  with d1(1) f1 d2(1) f2 show ?thesis by blast
qed

text \<open>
  Claim C7 as stated fails for a registered file that is already soft-deleted: before
  the delete its flags are (not accessible, deleted), after delete and restore they are
  (accessible, not deleted).
\<close>

theorem soft_delete_counterexample:
  "file_flags ''f1'' db_deleted = [(False, True)]
   \<and> fst (deleteFile no_failure 3 ''a2'' ''f1'' ''u1'' None db_deleted) = Inr ()
   \<and> fst (restoreFile no_failure 4 ''f1''
             (snd (deleteFile no_failure 3 ''a2'' ''f1'' ''u1'' None db_deleted))) = Inr ()
   \<and> file_flags ''f1'' (snd (restoreFile no_failure 4 ''f1''
             (snd (deleteFile no_failure 3 ''a2'' ''f1'' ''u1'' None db_deleted)))) = [(True, False)]
   \<and> file_flags ''f1'' (snd (restoreFile no_failure 4 ''f1''
             (snd (deleteFile no_failure 3 ''a2'' ''f1'' ''u1'' None db_deleted))))
       \<noteq> file_flags ''f1'' db_deleted"
  by (simp add: db_deleted_def db_registered_def registerFile_def registerFile_tx_def
      withTransaction_def createDublinCoreMetadata_def createPremisMetadata_def logAction_def
      deleteFile_def restoreFile_def apply_pending_def update_files_def file_flags_def
      no_failure_def disk0_def empty_db_def Let_def or_else_def last_segment_def no_options_def)

text \<open>
  The theorem at the store that \<^verbatim>\<open>registerFile\<close> leaves when called on the empty store.
\<close>

theorem soft_delete_reversible_witness:
  "file_flags ''f1'' db_registered = [(True, False)]
   \<and> (\<exists>d1 d2. deleteFile no_failure 2 ''a1'' ''f1'' ''u1'' None db_registered = (Inr (), d1)
     \<and> file_flags ''f1'' d1 = [(False, True)]
     \<and> restoreFile no_failure 3 ''f1'' d1 = (Inr (), d2)
     \<and> file_flags ''f1'' d2 = [(True, False)])"
proof -
  have h: "file_flags ''f1'' db_registered = [(True, False)]"
    by (simp add: db_registered_def registerFile_def registerFile_tx_def
      withTransaction_def createDublinCoreMetadata_def createPremisMetadata_def logAction_def
      apply_pending_def file_flags_def
      no_failure_def disk0_def empty_db_def Let_def or_else_def last_segment_def no_options_def)
  show ?thesis
    using h soft_delete_reversible [OF h, of 2 "''a1''" "''u1''" None 3]
    by simp blast
qed

section \<open>Verification: registerFile\<close>



text \<open>
  The same for every input: when the file row and the descriptive record are accepted
  and a later step (preservation record, ledger entry or \<^verbatim>\<open>COMMIT\<close>) is rejected, the
  call raises, no file row is added and the descriptive record is.
\<close>

lemma registerFile_rollback_leaves_pool_writes:
  assumes "disk filePath = Some stats" "\<not> fails TxBegin" "\<not> fails InsertFile"
    "\<not> fails InsertDublinCore" "fails InsertPremis \<or> fails InsertAudit \<or> fails TxCommit"
  shows "\<exists>d'. registerFile fails disk now newFileId eventId auditId filePath fileHash mimeType
                createdBy metadata d = (Inl DbError, d')
          \<and> files d' = files d
          \<and> map dc_file_id (metadata_dublin_core d') = map dc_file_id (metadata_dublin_core d) @ [newFileId]"
  using assms
  by (auto simp: registerFile_def registerFile_tx_def withTransaction_def
      createDublinCoreMetadata_def createPremisMetadata_def logAction_def Let_def)

text \<open>
  When no statement is rejected all four rows are written.
\<close>

lemma registerFile_success:
  assumes "disk filePath = Some stats" "\<forall>s. \<not> fails s"
  shows "\<exists>file d'. registerFile fails disk now newFileId eventId auditId filePath fileHash mimeType
                createdBy metadata d = (Inr file, d')
          \<and> files d' = files d @ [file] \<and> f_id file = newFileId
          \<and> map dc_file_id (metadata_dublin_core d') = map dc_file_id (metadata_dublin_core d) @ [newFileId]
          \<and> map p_file_id (metadata_premis d') = map p_file_id (metadata_premis d) @ [newFileId]
          \<and> map (\<lambda>r. (a_action r, a_resource_id r)) (audit_log d')
               = map (\<lambda>r. (a_action r, a_resource_id r)) (audit_log d) @ [(CREATE, newFileId)]"
  using assms
  by (simp add: registerFile_def registerFile_tx_def withTransaction_def
      createDublinCoreMetadata_def createPremisMetadata_def logAction_def Let_def apply_pending_def)

section \<open>Verification: fixity report\<close>






lemma logAction_writes_no_details:
  assumes "\<forall>r \<in> set (audit_log d). a_details r = None"
  shows "\<forall>r \<in> set (audit_log (snd (logAction fails now newId userId action resourceType resourceId options d))).
           a_details r = None"
  using assms by (simp add: logAction_def Let_def)

lemma verifyFile_writes_no_details:
  assumes "\<forall>r \<in> set (audit_log d). a_details r = None"
  shows "\<forall>r \<in> set (audit_log (snd (verifyFile fails disk now auditId fileId d))). a_details r = None"
  using assms
  by (auto simp: verifyFile_def logAction_def Let_def split: list.splits option.splits)

text \<open>
  The entries that \<^verbatim>\<open>logAction\<close> writes carry no details, so a ledger written by
  \<^verbatim>\<open>verifyFile\<close> alone never makes the report \<^verbatim>\<open>invalid\<close>.
\<close>

lemma report_never_invalid_without_details:
  assumes "\<forall>r \<in> set (audit_log d). a_details r = None"
    and "getFixityReport fails fileId d = Inr rep"
  shows "fr_status rep \<noteq> StatusInvalid"
proof -
  have "\<forall>r \<in> set (select_validate_log fileId d). a_details r = None"
    using assms(1) by (auto simp: select_validate_log_def dest: in_set_takeD)
  then have "\<forall>c \<in> set (map check_of_row (select_validate_log fileId d)). fc_isValid c"
    by (auto simp: check_of_row_def)
  then have "map_option fc_isValid (first_row (map check_of_row (select_validate_log fileId d)))
      \<noteq> Some False"
    by (cases "select_validate_log fileId d") (auto simp: first_row_def)
  with assms(2) show ?thesis
    by (auto simp: getFixityReport_def Let_def split: if_splits)
qed

section \<open>Verification: encryption service\<close>

lemma decrypt_field_other:
  "g \<noteq> k \<Longrightarrow> decrypt_field unseal st parse m k g = m g"
  by (simp add: decrypt_field_def split: option.splits js_value.splits sum.splits)

lemma decrypt_field_failing:
  assumes "m f = Some (JString s)" "decrypt unseal st s = Inl e"
  shows "decrypt_field unseal st parse m k f = Some (JString s)"
proof (cases "k = f")
  case True
  with assms show ?thesis by (simp add: decrypt_field_def)
next
  case False
  with assms(1) show ?thesis by (simp add: decrypt_field_other)
qed

lemma decrypt_field_absent:
  assumes "m f = None \<or> m f = Some JNull \<or> m f = Some JUndefined"
  shows "decrypt_field unseal st parse m k f = m f"
proof (cases "k = f")
  case True
  with assms show ?thesis by (auto simp: decrypt_field_def)
next
  case False
  then show ?thesis by (simp add: decrypt_field_other)
qed

lemma decryptObject_failing:
  assumes "obj f = Some (JString s)" "decrypt unseal st s = Inl e"
  shows "decryptObject unseal st parse obj fieldList f = Some (JString s)"
  using assms(1) unfolding decryptObject_def
proof (induction fieldList arbitrary: obj)
  case Nil
  then show ?case by simp
next
  case (Cons k ks)
  have "decrypt_field unseal st parse obj k f = Some (JString s)"
    using Cons.prems assms(2) by (rule decrypt_field_failing)
  from Cons.IH [of "decrypt_field unseal st parse obj k", OF this] show ?case by simp
qed

lemma decryptObject_absent:
  assumes "obj f = None \<or> obj f = Some JNull \<or> obj f = Some JUndefined"
  shows "decryptObject unseal st parse obj fieldList f = obj f"
  using assms unfolding decryptObject_def
proof (induction fieldList arbitrary: obj)
  case Nil
  then show ?case by simp
next
  case (Cons k ks)
  have same: "decrypt_field unseal st parse obj k f = obj f"
    using Cons.prems by (rule decrypt_field_absent)
  with Cons.prems have "decrypt_field unseal st parse obj k f = None
     \<or> decrypt_field unseal st parse obj k f = Some JNull
     \<or> decrypt_field unseal st parse obj k f = Some JUndefined" by simp
  from Cons.IH [of "decrypt_field unseal st parse obj k", OF this] same show ?case by simp
qed

lemma decryptObject_untouched:
  assumes "g \<notin> set fieldList"
  shows "decryptObject unseal st parse obj fieldList g = obj g"
  using assms unfolding decryptObject_def
  by (induction fieldList arbitrary: obj) (auto simp: decrypt_field_other)

lemma decryptObject_decrypts:
  assumes "distinct fieldList" "g \<in> set fieldList" "obj g = Some (JString s)"
    "decrypt unseal st s = Inr p"
  shows "decryptObject unseal st parse obj fieldList g
           = Some (case parse p of Some v \<Rightarrow> v | None \<Rightarrow> JString p)"
  using assms(1-3)
proof (induction fieldList arbitrary: obj)
  case Nil
  then show ?case by simp
next
  case (Cons k ks)
  show ?case
  proof (cases "k = g")
    case True
    with Cons.prems(1) have "g \<notin> set ks" by simp
    then have "decryptObject unseal st parse (decrypt_field unseal st parse obj g) ks g
        = decrypt_field unseal st parse obj g g"
      by (rule decryptObject_untouched)
    moreover have "decrypt_field unseal st parse obj g g
        = Some (case parse p of Some v \<Rightarrow> v | None \<Rightarrow> JString p)"
      using Cons.prems(3) assms(4) by (simp add: decrypt_field_def split: option.splits)
    ultimately show ?thesis using True by (simp add: decryptObject_def)
  next
    case False
    with Cons.prems have "distinct ks" "g \<in> set ks"
      "decrypt_field unseal st parse obj k g = Some (JString s)"
      by (simp_all add: decrypt_field_other)
    from Cons.IH [of "decrypt_field unseal st parse obj k", OF this]
    show ?thesis by (simp add: decryptObject_def)
  qed
qed

text \<open>
  Claim C10. \<^verbatim>\<open>decryptObject\<close> returns an object for every input. A field that holds
  a string whose decryption fails holds the same string afterwards; a field that is
  missing, null or undefined is as it was; and a listed field whose decryption succeeds
  is decrypted (to the parsed JSON value, or to the plain string when parsing fails)
  whatever happened to the other fields of the list.
\<close>

theorem decryptObject_tolerates_failures:
  "(obj f = Some (JString s) \<and> decrypt unseal st s = Inl e \<longrightarrow>
       decryptObject unseal st parse obj fieldList f = Some (JString s))
   \<and> (obj f = None \<or> obj f = Some JNull \<or> obj f = Some JUndefined \<longrightarrow>
       decryptObject unseal st parse obj fieldList f = obj f)
   \<and> (distinct fieldList \<and> g \<in> set fieldList \<and> obj g = Some (JString s') \<and> decrypt unseal st s' = Inr p \<longrightarrow>
       decryptObject unseal st parse obj fieldList g
         = Some (case parse p of Some v \<Rightarrow> v | None \<Rightarrow> JString p))"
proof (intro conjI impI)
  assume "obj f = Some (JString s) \<and> decrypt unseal st s = Inl e"
  then show "decryptObject unseal st parse obj fieldList f = Some (JString s)"
    by (auto intro: decryptObject_failing)
next
  assume "obj f = None \<or> obj f = Some JNull \<or> obj f = Some JUndefined"
  then show "decryptObject unseal st parse obj fieldList f = obj f"
    by (rule decryptObject_absent)
next
  assume "distinct fieldList \<and> g \<in> set fieldList \<and> obj g = Some (JString s')
     \<and> decrypt unseal st s' = Inr p"
  then show "decryptObject unseal st parse obj fieldList g
         = Some (case parse p of Some v \<Rightarrow> v | None \<Rightarrow> JString p)"
    by (auto intro: decryptObject_decrypts)
qed























lemma garbage_rejected: "decrypt toy_unseal st0 ''zz'' = Inl DecryptionFailed"
  by code_simp

lemma sealed_hi_decrypt: "decrypt toy_unseal st0 sealed_hi = Inr ''hi''"
  by code_simp

text \<open>
  The theorem at an object with an undecryptable field, a null field, a missing field
  and a field sealed by the checksum cipher above.
\<close>

theorem decryptObject_tolerates_failures_witness:
  "contact ''email'' = Some (JString ''zz'') \<and> decrypt toy_unseal st0 ''zz'' = Inl DecryptionFailed
   \<and> decryptObject toy_unseal st0 parse_none contact [''email'', ''name'', ''fax'', ''phone''] ''email''
        = Some (JString ''zz'')
   \<and> decryptObject toy_unseal st0 parse_none contact [''email'', ''name'', ''fax'', ''phone''] ''name''
        = Some JNull
   \<and> decryptObject toy_unseal st0 parse_none contact [''email'', ''name'', ''fax'', ''phone''] ''fax''
        = None
   \<and> decryptObject toy_unseal st0 parse_none contact [''email'', ''name'', ''fax'', ''phone''] ''phone''
        = Some (JString ''hi'')"
proof -
  let ?fs = "[''email'', ''name'', ''fax'', ''phone'']"
  have e: "contact ''email'' = Some (JString ''zz'')" by (simp add: contact_def)
  have n: "contact ''name'' = Some JNull" by (simp add: contact_def)
  have f: "contact ''fax'' = None" by (simp add: contact_def)
  have p: "contact ''phone'' = Some (JString sealed_hi)" by (simp add: contact_def)
  have d: "distinct ?fs" "''phone'' \<in> set ?fs" by simp_all
  have r1: "decryptObject toy_unseal st0 parse_none contact ?fs ''email'' = Some (JString ''zz'')"
    using decryptObject_tolerates_failures [of contact "''email''" "''zz''" toy_unseal st0
        DecryptionFailed parse_none ?fs] e garbage_rejected by simp
  have r2: "decryptObject toy_unseal st0 parse_none contact ?fs ''name'' = Some JNull"
    using decryptObject_tolerates_failures [of contact "''name''" _ toy_unseal st0 _ parse_none ?fs] n
    by simp
  have r3: "decryptObject toy_unseal st0 parse_none contact ?fs ''fax'' = None"
    using decryptObject_tolerates_failures [of contact "''fax''" _ toy_unseal st0 _ parse_none ?fs] f
    by simp
  have r4: "decryptObject toy_unseal st0 parse_none contact ?fs ''phone'' = Some (JString ''hi'')"
    using decryptObject_tolerates_failures [of contact _ _ toy_unseal st0 _ parse_none ?fs
        "''phone''" sealed_hi "''hi''"] p d sealed_hi_decrypt
    by (simp add: parse_none_def)
  from e garbage_rejected r1 r2 r3 r4 show ?thesis by (intro conjI)
qed

end
